theory Spec2Isabelle
  imports Main "HOL-Library.Sublist"
begin

section \<open>Python values, exceptions and subscripting\<close>

text \<open>
  Both handlers receive their event as the Python value decoded from a JSON document.
  A dictionary is an association list read with \<open>map_of\<close>; floating point numbers are
  not modelled.
\<close>

datatype json =
    JNull
  | JBool bool
  | JInt int
  | JStr string
  | JList "json list"
  | JObj "(string \<times> json) list"

text \<open>
  The exceptions the two modules can see. \<open>KeyError\<close> carries the missing key,
  \<open>ClientError\<close> carries the \<open>response\<close> attribute of botocore's exception, and
  \<open>OtherError\<close> stands for every other exception a service client may raise.
\<close>

datatype exn =
    KeyError json
  | IndexError
  | TypeError
  | ClientError json
  | OtherError string

definition thenE :: "exn + 'a \<Rightarrow> ('a \<Rightarrow> exn + 'b) \<Rightarrow> exn + 'b" where
  "thenE r f = (case r of Inl e \<Rightarrow> Inl e | Inr v \<Rightarrow> f v)"

text \<open>\<open>obj[k]\<close> for a string literal \<open>k\<close>: only a dictionary can be subscripted by a string.\<close>

fun getitem_str :: "json \<Rightarrow> string \<Rightarrow> exn + json" where
  "getitem_str (JObj kvs) k =
     (case map_of kvs k of None \<Rightarrow> Inl (KeyError (JStr k)) | Some v \<Rightarrow> Inr v)"
| "getitem_str v k = Inl TypeError"

text \<open>
  \<open>obj[0]\<close>: the first element of a list or the first character of a string,
  \<open>IndexError\<close> when there is none; a dictionary decoded from JSON has string keys only,
  so \<open>0\<close> is a missing key; nothing else can be subscripted.
\<close>

fun getitem_0 :: "json \<Rightarrow> exn + json" where
  "getitem_0 (JList []) = Inl IndexError"
| "getitem_0 (JList (x # xs)) = Inr x"
| "getitem_0 (JStr []) = Inl IndexError"
| "getitem_0 (JStr (c # cs)) = Inr (JStr [c])"
| "getitem_0 (JObj kvs) = Inl (KeyError (JInt 0))"
| "getitem_0 v = Inl TypeError"

text \<open>\<open>os.environ[k]\<close>: the environment maps names to strings and raises on a missing name.\<close>

definition environ_getitem :: "(string \<rightharpoonup> string) \<Rightarrow> string \<Rightarrow> exn + string" where
  "environ_getitem environ k =
     (case environ k of None \<Rightarrow> Inl (KeyError (JStr k)) | Some v \<Rightarrow> Inr v)"

text \<open>
  \<open>str(v)\<close>, as applied by an f-string field and by \<open>print\<close>. A string is rendered as
  itself; the rendering of any other value is Python's own and is taken as the parameter
  \<open>str_other\<close>.
\<close>

definition format_value :: "(json \<Rightarrow> string) \<Rightarrow> json \<Rightarrow> string" where
  "format_value str_other v = (case v of JStr s \<Rightarrow> s | _ \<Rightarrow> str_other v)"

text \<open>The truth value Python gives a decoded JSON value in \<open>if v:\<close>.\<close>

fun truthy :: "json \<Rightarrow> bool" where
  "truthy JNull = False"
| "truthy (JBool b) = b"
| "truthy (JInt n) = (n \<noteq> 0)"
| "truthy (JStr s) = (s \<noteq> [])"
| "truthy (JList xs) = (xs \<noteq> [])"
| "truthy (JObj kvs) = (kvs \<noteq> [])"

section \<open>Upload Notifier: \<open>lambda-email/email_sender.py\<close>\<close>

text \<open>The keyword arguments of \<open>client.send_email\<close>.\<close>

record content =
  Charset :: string
  Data :: string

record body =
  Html :: content
  Text :: content

record message =
  Body :: body
  Subject :: content

record destination =
  ToAddresses :: "string list"

record send_email_request =
  Destination :: destination
  Message :: message
  Source :: string

text \<open>
  A mail-service client answers a request with a response or raises. The client factory
  \<open>boto3.client('ses', region_name=...)\<close> is a parameter of the handler, from the
  region name to the client.
\<close>

type_synonym ses_client = "send_email_request \<Rightarrow> exn + json"

text \<open>What an invocation does to the outside: the requests sent and the lines printed.\<close>

record email_effects =
  send_email_calls :: "send_email_request list"
  printed :: "string list"

definition no_effects :: email_effects where
  "no_effects = \<lparr>send_email_calls = [], printed = []\<rparr>"

text \<open>\<open>event["Records"][0]["s3"]["object"]["key"]\<close>\<close>

definition event_object_key :: "json \<Rightarrow> exn + json" where
  "event_object_key event =
     thenE (getitem_str event ''Records'') (\<lambda>records.
     thenE (getitem_0 records) (\<lambda>record0.
     thenE (getitem_str record0 ''s3'') (\<lambda>s3.
     thenE (getitem_str s3 ''object'') (\<lambda>obj.
     getitem_str obj ''key''))))"

text \<open>\<open>event["Records"][0]["s3"]["bucket"]["name"]\<close>\<close>

definition event_bucket_name :: "json \<Rightarrow> exn + json" where
  "event_bucket_name event =
     thenE (getitem_str event ''Records'') (\<lambda>records.
     thenE (getitem_0 records) (\<lambda>record0.
     thenE (getitem_str record0 ''s3'') (\<lambda>s3.
     thenE (getitem_str s3 ''bucket'') (\<lambda>bucket.
     getitem_str bucket ''name''))))"

definition SUBJECT :: string where
  "SUBJECT = ''File Uploaded to S3 bucket''"

text \<open>Three adjacent string literals; the first ends in carriage return, line feed.\<close>

definition BODY_TEXT :: string where
  "BODY_TEXT =
     ''Amazon SES Test (Python)'' @ [CHR 0x0D, CHR 0x0A] @
     ''This email was sent with Amazon SES using the '' @
     ''AWS SDK for Python (Boto).''"

text \<open>The f-string, with its two fields and the line breaks and indentation of the source.\<close>

definition BODY_HTML :: "(json \<Rightarrow> string) \<Rightarrow> json \<Rightarrow> json \<Rightarrow> string" where
  "BODY_HTML str_other BUCKET OBJECT =
     ''<html>\<newline>    <head></head>\<newline>    <body>\<newline>      <h1>A file was uploaded to Bucket: '' @
     format_value str_other BUCKET @
     ''</h1>\<newline>      <p>File name '' @
     format_value str_other OBJECT @
     ''<p>\<newline>      <p>This email was sent with\<newline>        <a href='https://aws.amazon.com/ses/'>Amazon SES</a> using the\<newline>        <a href='https://aws.amazon.com/sdk-for-python/'>\<newline>          AWS SDK for Python (Boto)</a>.</p>\<newline>    </body>\<newline>    </html>\<newline>                ''"

definition CHARSET :: string where
  "CHARSET = ''UTF-8''"

definition handler ::
  "(json \<Rightarrow> string) \<Rightarrow> (string \<Rightarrow> ses_client) \<Rightarrow> (string \<rightharpoonup> string) \<Rightarrow> json
     \<Rightarrow> (exn + unit) \<times> email_effects" where
  "handler str_other boto3_client environ event =
    (case environ_getitem environ ''sender'' of Inl e \<Rightarrow> (Inl e, no_effects) | Inr SENDER \<Rightarrow>
    (case environ_getitem environ ''recipient'' of Inl e \<Rightarrow> (Inl e, no_effects) | Inr RECIPIENT \<Rightarrow>
    (case environ_getitem environ ''awsregion'' of Inl e \<Rightarrow> (Inl e, no_effects) | Inr AWS_REGION \<Rightarrow>
    (case event_object_key event of Inl e \<Rightarrow> (Inl e, no_effects) | Inr OBJECT \<Rightarrow>
    (case event_bucket_name event of Inl e \<Rightarrow> (Inl e, no_effects) | Inr BUCKET \<Rightarrow>
      (let client = boto3_client AWS_REGION;
           request =
             \<lparr>Destination = \<lparr>ToAddresses = [RECIPIENT]\<rparr>,
              Message =
                \<lparr>Body =
                   \<lparr>Html = \<lparr>Charset = CHARSET, Data = BODY_HTML str_other BUCKET OBJECT\<rparr>,
                    Text = \<lparr>Charset = CHARSET, Data = BODY_TEXT\<rparr>\<rparr>,
                 Subject = \<lparr>Charset = CHARSET, Data = SUBJECT\<rparr>\<rparr>,
              Source = SENDER\<rparr>
       in (case client request of
             Inl (ClientError response) \<Rightarrow>
               (case thenE (getitem_str response ''Error'') (\<lambda>err. getitem_str err ''Message'') of
                  Inl e \<Rightarrow> (Inl e, \<lparr>send_email_calls = [request], printed = []\<rparr>)
                | Inr msg \<Rightarrow>
                    (Inr (), \<lparr>send_email_calls = [request],
                              printed = [format_value str_other msg]\<rparr>))
           | Inl e \<Rightarrow> (Inl e, \<lparr>send_email_calls = [request], printed = []\<rparr>)
           | Inr response \<Rightarrow>
               (case getitem_str response ''MessageId'' of
                  Inl e \<Rightarrow>
                    (Inl e, \<lparr>send_email_calls = [request],
                             printed = [''Email sent! Message ID:'']\<rparr>)
                | Inr message_id \<Rightarrow>
                    (Inr (), \<lparr>send_email_calls = [request],
                              printed = [''Email sent! Message ID:'',
                                         format_value str_other message_id]\<rparr>)))))))))"

section \<open>Notification Registrar: \<open>lambda-notify/lambda_fn.py\<close>\<close>

text \<open>
  The one request the module sends to the storage service:
  \<open>s3.BucketNotification(bucket_name).put(NotificationConfiguration=...)\<close>.
\<close>

datatype s3_call = BucketNotification_put (put_bucket: json) (put_configuration: json)

datatype cfn_status = SUCCESS | FAILED

text \<open>
  The state an invocation acts on: the requests sent to the storage service so far, the
  notification configuration the service holds for each bucket, the records handed to
  \<open>logger.info\<close>, and the completion signals sent to the orchestrator.
\<close>

record cloud =
  s3_calls :: "s3_call list"
  notification_store :: "json \<rightharpoonup> json"
  log_records :: "string list"
  cfn_signals :: "cfn_status list"

definition logger_info :: "string \<Rightarrow> cloud \<Rightarrow> cloud" where
  "logger_info msg c = c\<lparr>log_records := log_records c @ [msg]\<rparr>"

text \<open>
  Modelled from the spec: the storage service itself, which is not part of the
  repository. Its answer to a request (a response, or an exception) is the parameter
  \<open>s3\<close>; an accepted request replaces the bucket's whole notification configuration
  ("fully overwritten (not merged) on each call"), a rejected one changes nothing.
\<close>

definition bucket_notification_put ::
  "(s3_call \<Rightarrow> exn + json) \<Rightarrow> json \<Rightarrow> json \<Rightarrow> cloud \<Rightarrow> (exn + json) \<times> cloud" where
  "bucket_notification_put s3 bucket_name configuration c =
     (let call = BucketNotification_put bucket_name configuration;
          c' = c\<lparr>s3_calls := s3_calls c @ [call]\<rparr>
      in case s3 call of
           Inl e \<Rightarrow> (Inl e, c')
         | Inr response \<Rightarrow>
             (Inr response,
              c'\<lparr>notification_store := (notification_store c')(bucket_name \<mapsto> configuration)\<rparr>))"

text \<open>
  The function defined at line 11 under \<open>@helper.create\<close> and \<open>@helper.update\<close>.
  \<open>json.dumps\<close> is a parameter.
\<close>

definition lambda_fn_handler ::
  "(json \<Rightarrow> string) \<Rightarrow> (s3_call \<Rightarrow> exn + json) \<Rightarrow> json \<Rightarrow> cloud \<Rightarrow> (exn + json) \<times> cloud" where
  "lambda_fn_handler json_dumps s3 event c =
    (let c1 = logger_info ''Creating or Updating'' c in
     case thenE (getitem_str event ''ResourceProperties'') (\<lambda>p. getitem_str p ''S3BucketName'') of
       Inl e \<Rightarrow> (Inl e, c1)
     | Inr bucket_name \<Rightarrow>
    (case thenE (getitem_str event ''ResourceProperties'') (\<lambda>p. getitem_str p ''FunctionARN'') of
       Inl e \<Rightarrow> (Inl e, c1)
     | Inr lambda_arn \<Rightarrow>
    (case bucket_notification_put s3 bucket_name
            (JObj [(''LambdaFunctionConfigurations'',
                    JList [JObj [(''Id'', JStr ''object-create-permission''),
                                 (''LambdaFunctionArn'', lambda_arn),
                                 (''Events'', JList [JStr ''s3:ObjectCreated:*''])]])]) c1 of
       (Inl e, c2) \<Rightarrow> (Inl e, c2)
     | (Inr response, c2) \<Rightarrow>
         (Inr response,
          if truthy response
          then logger_info (''Created or Updated, '' @ json_dumps response) c2
          else c2))))"

text \<open>The function defined at line 34 under \<open>@helper.delete\<close>; it returns \<open>None\<close>.\<close>

definition lambda_fn_delete :: "json \<Rightarrow> cloud \<Rightarrow> (exn + json) \<times> cloud" where
  "lambda_fn_delete event c = (Inr JNull, logger_info ''Deleted'' c)"

subsection \<open>The module's names and the lifecycle-callback helper\<close>

text \<open>The three function objects the module creates, one for each \<open>def\<close>.\<close>

datatype fn = handler_line_11 | delete_line_34 | handler_line_37

datatype phase = Create | Update | Delete

text \<open>
  Modelled from the spec: the lifecycle-callback helper (\<open>crhelper.CfnResource\<close>), which
  is not part of the repository. It holds one registered function for each lifecycle
  phase; each decorator stores the function object it is given and returns it; calling
  the helper maps the phase declared in the event to the registered function, runs it,
  and signals success or failure to the orchestrator.
\<close>

record CfnResource =
  create_func :: "fn option"
  update_func :: "fn option"
  delete_func :: "fn option"

definition CfnResource_create :: "fn \<Rightarrow> CfnResource \<Rightarrow> fn \<times> CfnResource" where
  "CfnResource_create f h = (f, h\<lparr>create_func := Some f\<rparr>)"

definition CfnResource_update :: "fn \<Rightarrow> CfnResource \<Rightarrow> fn \<times> CfnResource" where
  "CfnResource_update f h = (f, h\<lparr>update_func := Some f\<rparr>)"

definition CfnResource_delete :: "fn \<Rightarrow> CfnResource \<Rightarrow> fn \<times> CfnResource" where
  "CfnResource_delete f h = (f, h\<lparr>delete_func := Some f\<rparr>)"

definition request_phase :: "json \<Rightarrow> phase option" where
  "request_phase event =
     (case getitem_str event ''RequestType'' of
        Inr (JStr t) \<Rightarrow>
          (if t = ''Create'' then Some Create
           else if t = ''Update'' then Some Update
           else if t = ''Delete'' then Some Delete
           else None)
      | _ \<Rightarrow> None)"

definition registered :: "CfnResource \<Rightarrow> phase \<Rightarrow> fn option" where
  "registered h ph =
     (case ph of Create \<Rightarrow> create_func h | Update \<Rightarrow> update_func h | Delete \<Rightarrow> delete_func h)"

definition signal :: "cfn_status \<Rightarrow> cloud \<Rightarrow> cloud" where
  "signal st c = c\<lparr>cfn_signals := cfn_signals c @ [st]\<rparr>"

definition CfnResource_call ::
  "(fn \<Rightarrow> json \<Rightarrow> cloud \<Rightarrow> ((exn + json) \<times> cloud) option) \<Rightarrow> CfnResource \<Rightarrow> json \<Rightarrow> cloud
     \<Rightarrow> ((exn + json) \<times> cloud) option" where
  "CfnResource_call call h event c =
     (case request_phase event of
        None \<Rightarrow> Some (Inr JNull, signal FAILED c)
      | Some ph \<Rightarrow>
          (case registered h ph of
             None \<Rightarrow> Some (Inr JNull, signal SUCCESS c)
           | Some f \<Rightarrow>
               (case call f event c of
                  None \<Rightarrow> None
                | Some (Inl e, c') \<Rightarrow> Some (Inr JNull, signal FAILED c')
                | Some (Inr v, c') \<Rightarrow> Some (Inr JNull, signal SUCCESS c'))))"

text \<open>
  The module's global names after each top-level statement. A \<open>def\<close> binds its name to
  the value its decorators return, innermost decorator first.
\<close>

record module =
  globals :: "string \<rightharpoonup> fn"
  helper :: CfnResource

definition module_start :: module where
  "module_start =
     \<lparr>globals = Map.empty,
      helper = \<lparr>create_func = None, update_func = None, delete_func = None\<rparr>\<rparr>"

definition def_handler_line_11 :: "module \<Rightarrow> module" where
  "def_handler_line_11 m =
     (let (f1, h1) = CfnResource_update handler_line_11 (helper m);
          (f2, h2) = CfnResource_create f1 h1
      in \<lparr>globals = (globals m)(''handler'' \<mapsto> f2), helper = h2\<rparr>)"

definition def_delete_line_34 :: "module \<Rightarrow> module" where
  "def_delete_line_34 m =
     (let (f1, h1) = CfnResource_delete delete_line_34 (helper m)
      in \<lparr>globals = (globals m)(''delete'' \<mapsto> f1), helper = h1\<rparr>)"

definition def_handler_line_37 :: "module \<Rightarrow> module" where
  "def_handler_line_37 m = m\<lparr>globals := (globals m)(''handler'' \<mapsto> handler_line_37)\<rparr>"

definition lambda_fn_module :: module where
  "lambda_fn_module = def_handler_line_37 (def_delete_line_34 (def_handler_line_11 module_start))"

text \<open>
  Calling a function object. The function of line 37 calls the helper found in the
  module and returns \<open>None\<close>; the helper calls back whatever function object it has
  registered, so the call depth is bounded by a fuel argument and \<open>None\<close> means that
  the fuel ran out.
\<close>

primrec call_function ::
  "(json \<Rightarrow> string) \<Rightarrow> (s3_call \<Rightarrow> exn + json) \<Rightarrow> module \<Rightarrow> nat \<Rightarrow> fn \<Rightarrow> json \<Rightarrow> cloud
     \<Rightarrow> ((exn + json) \<times> cloud) option" where
  "call_function json_dumps s3 m 0 f event c = None"
| "call_function json_dumps s3 m (Suc n) f event c =
     (case f of
        handler_line_11 \<Rightarrow> Some (lambda_fn_handler json_dumps s3 event c)
      | delete_line_34 \<Rightarrow> Some (lambda_fn_delete event c)
      | handler_line_37 \<Rightarrow>
          (case CfnResource_call (call_function json_dumps s3 m n) (helper m) event c of
             None \<Rightarrow> None
           | Some (Inl e, c') \<Rightarrow> Some (Inl e, c')
           | Some (Inr v, c') \<Rightarrow> Some (Inr JNull, c')))"

text \<open>
  The platform's entry point is the module attribute \<open>handler\<close>, read after the module
  has been executed.
\<close>

definition lambda_entry ::
  "(json \<Rightarrow> string) \<Rightarrow> (s3_call \<Rightarrow> exn + json) \<Rightarrow> nat \<Rightarrow> json \<Rightarrow> cloud
     \<Rightarrow> ((exn + json) \<times> cloud) option" where
  "lambda_entry json_dumps s3 n event c =
     (case globals lambda_fn_module ''handler'' of
        None \<Rightarrow> Some (Inl (OtherError ''handler not found''), c)
      | Some f \<Rightarrow> call_function json_dumps s3 lambda_fn_module n f event c)"

section \<open>Concrete inputs\<close>

text \<open>An upload event for the object \<open>cat.png\<close> in the bucket \<open>photos\<close>.\<close>

definition example_event :: json where
  "example_event =
     JObj [(''Records'',
            JList [JObj [(''s3'',
                          JObj [(''bucket'', JObj [(''name'', JStr ''photos'')]),
                                (''object'', JObj [(''key'', JStr ''cat.png'')])])]])]"

text \<open>An event whose record has no \<open>s3\<close> entry.\<close>

definition example_malformed_event :: json where
  "example_malformed_event = JObj [(''Records'', JList [JObj [(''eventName'', JStr ''Put'')]])]"

definition example_environ :: "string \<rightharpoonup> string" where
  "example_environ =
     map_of [(''sender'', ''from@example.com''),
             (''recipient'', ''to@example.com''),
             (''awsregion'', ''eu-west-1'')]"

text \<open>An environment without \<open>recipient\<close>.\<close>

definition example_environ_incomplete :: "string \<rightharpoonup> string" where
  "example_environ_incomplete =
     map_of [(''sender'', ''from@example.com''), (''awsregion'', ''eu-west-1'')]"

text \<open>The examples render strings only; \<open>str(None)\<close> is given for completeness.\<close>

definition str_of_none :: "json \<Rightarrow> string" where
  "str_of_none v = ''None''"

definition accepting_client :: "string \<Rightarrow> ses_client" where
  "accepting_client region request = Inr (JObj [(''MessageId'', JStr ''0100-abc'')])"

definition example_rejection :: json where
  "example_rejection =
     JObj [(''Error'',
            JObj [(''Code'', JStr ''MessageRejected''),
                  (''Message'', JStr ''Email address is not verified.'')])]"

definition rejecting_client :: "string \<Rightarrow> ses_client" where
  "rejecting_client region request = Inl (ClientError example_rejection)"

text \<open>A create request of the orchestrator for the bucket \<open>photos\<close>.\<close>

definition example_properties :: json where
  "example_properties =
     JObj [(''S3BucketName'', JStr ''photos''),
           (''FunctionARN'', JStr ''arn:aws:lambda:eu-west-1:123456789012:function:notify'')]"

definition example_create_event :: json where
  "example_create_event =
     JObj [(''RequestType'', JStr ''Create''), (''ResourceProperties'', example_properties)]"

text \<open>The configuration the create/update function sends for that request.\<close>

definition example_configuration :: json where
  "example_configuration =
     JObj [(''LambdaFunctionConfigurations'',
            JList [JObj [(''Id'', JStr ''object-create-permission''),
                         (''LambdaFunctionArn'',
                          JStr ''arn:aws:lambda:eu-west-1:123456789012:function:notify''),
                         (''Events'', JList [JStr ''s3:ObjectCreated:*''])]])]"

text \<open>A storage service that already holds a topic rule for the bucket \<open>photos\<close>.\<close>

definition example_cloud :: cloud where
  "example_cloud =
     \<lparr>s3_calls = [],
      notification_store =
        map_of [(JStr ''photos'',
                 JObj [(''TopicConfigurations'',
                        JList [JObj [(''Id'', JStr ''audit''),
                                     (''Events'', JList [JStr ''s3:ObjectRemoved:*''])]])])],
      log_records = [],
      cfn_signals = []\<rparr>"

text \<open>The storage client's \<open>put\<close> answering \<open>None\<close>, and answering a non-empty dictionary.\<close>

definition s3_returning_none :: "s3_call \<Rightarrow> exn + json" where
  "s3_returning_none call = Inr JNull"

definition example_response :: json where
  "example_response = JObj [(''ResponseMetadata'', JObj [])]"

definition s3_returning_metadata :: "s3_call \<Rightarrow> exn + json" where
  "s3_returning_metadata call = Inr example_response"

text \<open>\<open>json.dumps\<close> on the two responses above.\<close>

definition example_json_dumps :: "json \<Rightarrow> string" where
  "example_json_dumps v = (if v = JNull then ''null'' else ''{\"ResponseMetadata\": {}}'')"

text \<open>
  An upload event with two records, built from its parts: the first record is for the object
  \<open>cat.png\<close> in the bucket \<open>photos\<close>, the second for \<open>song.mp3\<close> in \<open>music\<close>.
\<close>

definition example_bucket_entry :: json where
  "example_bucket_entry = JObj [(''name'', JStr ''photos'')]"

definition example_object_entry :: json where
  "example_object_entry = JObj [(''key'', JStr ''cat.png'')]"

definition example_s3_entry :: json where
  "example_s3_entry =
     JObj [(''bucket'', example_bucket_entry), (''object'', example_object_entry)]"

definition example_first_record :: json where
  "example_first_record = JObj [(''s3'', example_s3_entry)]"

definition example_second_record :: json where
  "example_second_record =
     JObj [(''s3'',
            JObj [(''bucket'', JObj [(''name'', JStr ''music'')]),
                  (''object'', JObj [(''key'', JStr ''song.mp3'')])])]"

definition example_event_two_records :: json where
  "example_event_two_records =
     JObj [(''Records'', JList [example_first_record, example_second_record])]"

text \<open>The request the Upload Notifier sends for \<open>example_event\<close> under \<open>example_environ\<close>.\<close>

definition example_request :: send_email_request where
  "example_request =
     \<lparr>Destination = \<lparr>ToAddresses = [''to@example.com'']\<rparr>,
      Message =
        \<lparr>Body =
           \<lparr>Html = \<lparr>Charset = ''UTF-8'',
                    Data = BODY_HTML str_of_none (JStr ''photos'') (JStr ''cat.png'')\<rparr>,
            Text = \<lparr>Charset = ''UTF-8'', Data = BODY_TEXT\<rparr>\<rparr>,
         Subject = \<lparr>Charset = ''UTF-8'', Data = ''File Uploaded to S3 bucket''\<rparr>\<rparr>,
      Source = ''from@example.com''\<rparr>"

section \<open>Facts about the concrete inputs\<close>

lemma example_paths:
  "event_object_key example_event = Inr (JStr ''cat.png'')"
  "event_bucket_name example_event = Inr (JStr ''photos'')"
  by (simp_all add: example_event_def event_object_key_def event_bucket_name_def thenE_def)

lemma example_environ_values:
  "example_environ ''sender'' = Some ''from@example.com''"
  "example_environ ''recipient'' = Some ''to@example.com''"
  "example_environ ''awsregion'' = Some ''eu-west-1''"
  by (simp_all add: example_environ_def)

lemma example_structure:
  "getitem_str example_event_two_records ''Records'' =
     Inr (JList (example_first_record # [example_second_record]))"
  "getitem_str example_first_record ''s3'' = Inr example_s3_entry"
  "getitem_str example_s3_entry ''bucket'' = Inr example_bucket_entry"
  "getitem_str example_bucket_entry ''name'' = Inr (JStr ''photos'')"
  "getitem_str example_s3_entry ''object'' = Inr example_object_entry"
  "getitem_str example_object_entry ''key'' = Inr (JStr ''cat.png'')"
  by (simp_all add: example_event_two_records_def example_first_record_def
      example_s3_entry_def example_bucket_entry_def example_object_entry_def)

lemma example_rejection_message:
  "thenE (getitem_str example_rejection ''Error'') (\<lambda>err. getitem_str err ''Message'') =
     Inr (JStr ''Email address is not verified.'')"
  by (simp add: example_rejection_def thenE_def)

lemma example_malformed_paths:
  "event_object_key example_malformed_event = Inl (KeyError (JStr ''s3''))"
  by (simp add: example_malformed_event_def event_object_key_def thenE_def)

lemma example_create_properties:
  "getitem_str example_create_event ''ResourceProperties'' = Inr example_properties"
  "getitem_str example_properties ''S3BucketName'' = Inr (JStr ''photos'')"
  "getitem_str example_properties ''FunctionARN'' =
     Inr (JStr ''arn:aws:lambda:eu-west-1:123456789012:function:notify'')"
  by (simp_all add: example_create_event_def example_properties_def)

lemma example_create_phase: "request_phase example_create_event = Some Create"
  by (simp add: request_phase_def example_create_event_def)

section \<open>Upload Notifier: properties\<close>

lemma sublist_middle: "sublist ys (xs @ ys @ zs)"
  unfolding sublist_def by blast

lemma sublist_inner: "sublist ys (ws @ xs @ vs @ ys @ zs)"
proof -
  have "ws @ xs @ vs @ ys @ zs = (ws @ xs @ vs) @ ys @ zs" by simp
  then show ?thesis unfolding sublist_def by blast
qed

text \<open>
  What the two subscript chains of lines 17 and 19 read from an event whose record list
  starts with a record holding an \<open>s3\<close> entry with a bucket name and an object key.
\<close>

lemma structural_extraction:
  assumes "getitem_str event ''Records'' = Inr (JList (first_record # more_records))"
    and "getitem_str first_record ''s3'' = Inr s3_entry"
    and "getitem_str s3_entry ''bucket'' = Inr bucket_entry"
    and "getitem_str bucket_entry ''name'' = Inr BUCKET"
    and "getitem_str s3_entry ''object'' = Inr object_entry"
    and "getitem_str object_entry ''key'' = Inr OBJECT"
  shows "event_object_key event = Inr OBJECT"
    and "event_bucket_name event = Inr BUCKET"
  using assms by (simp_all add: event_object_key_def event_bucket_name_def thenE_def)

lemma handler_calls:
  assumes "environ ''sender'' = Some sender"
    and "environ ''recipient'' = Some recipient"
    and "environ ''awsregion'' = Some region"
    and "event_object_key event = Inr OBJECT"
    and "event_bucket_name event = Inr BUCKET"
  shows "send_email_calls (snd (handler str_other boto3_client environ event)) =
           [\<lparr>Destination = \<lparr>ToAddresses = [recipient]\<rparr>,
             Message =
               \<lparr>Body =
                  \<lparr>Html = \<lparr>Charset = CHARSET, Data = BODY_HTML str_other BUCKET OBJECT\<rparr>,
                   Text = \<lparr>Charset = CHARSET, Data = BODY_TEXT\<rparr>\<rparr>,
                Subject = \<lparr>Charset = CHARSET, Data = SUBJECT\<rparr>\<rparr>,
             Source = sender\<rparr>]"
  using assms
  by (simp add: handler_def environ_getitem_def Let_def split: sum.splits exn.splits)

lemma example_calls:
  "send_email_calls (snd (handler str_of_none boto3_client example_environ example_event)) =
     [example_request]"
  by (simp add: handler_calls [OF example_environ_values example_paths]
      example_request_def CHARSET_def SUBJECT_def)


text \<open>
  C1. For every event from which the handler can read an object key and a bucket name, and
  with \<open>sender\<close>, \<open>recipient\<close> and \<open>awsregion\<close> all set in the environment, the handler
  sends exactly one request, whatever the mail service answers: its \<open>Source\<close> is the
  sender, its \<open>Destination.ToAddresses\<close> is the one-element list of the recipient, and the
  subject, the HTML body and the text body each carry the charset \<open>UTF-8\<close>.
\<close>

theorem send_email_issued_once:
  assumes "environ ''sender'' = Some sender"
    and "environ ''recipient'' = Some recipient"
    and "environ ''awsregion'' = Some region"
    and "event_object_key event = Inr K"
    and "event_bucket_name event = Inr B"
  shows "\<exists>request.
           send_email_calls (snd (handler str_other boto3_client environ event)) = [request] \<and>
           Source request = sender \<and>
           ToAddresses (Destination request) = [recipient] \<and>
           Charset (Subject (Message request)) = ''UTF-8'' \<and>
           Charset (Html (Body (Message request))) = ''UTF-8'' \<and>
           Charset (Text (Body (Message request))) = ''UTF-8''"
  using assms
  by (simp add: handler_def environ_getitem_def CHARSET_def Let_def
      split: sum.splits exn.splits)

theorem send_email_issued_once_witness:
  "example_environ ''sender'' = Some ''from@example.com'' \<and>
   example_environ ''recipient'' = Some ''to@example.com'' \<and>
   example_environ ''awsregion'' = Some ''eu-west-1'' \<and>
   event_object_key example_event = Inr (JStr ''cat.png'') \<and>
   event_bucket_name example_event = Inr (JStr ''photos'') \<and>
   (\<exists>request.
      send_email_calls (snd (handler str_of_none accepting_client example_environ example_event))
        = [request] \<and>
      Source request = ''from@example.com'' \<and>
      ToAddresses (Destination request) = [''to@example.com''] \<and>
      Charset (Subject (Message request)) = ''UTF-8'' \<and>
      Charset (Html (Body (Message request))) = ''UTF-8'' \<and>
      Charset (Text (Body (Message request))) = ''UTF-8'')"
  using send_email_issued_once [OF example_environ_values example_paths,
      of str_of_none accepting_client]
  by (simp add: example_environ_values example_paths)

text \<open>
  C3. For every event whose record list starts with a record that holds, under \<open>s3\<close>,
  a bucket entry of name \<open>B\<close> and an object entry of key \<open>K\<close>, both strings, the
  HTML body of the request sent is the fixed template text with \<open>B\<close> in its first field
  and \<open>K\<close> in its second. So it contains both as substrings, and nothing else of the
  event enters it: the further records and every other entry of the event are arbitrary
  and do not occur in the body.
\<close>

theorem html_body_embeds_bucket_and_key:
  assumes "environ ''sender'' = Some sender"
    and "environ ''recipient'' = Some recipient"
    and "environ ''awsregion'' = Some region"
    and "getitem_str event ''Records'' = Inr (JList (first_record # more_records))"
    and "getitem_str first_record ''s3'' = Inr s3_entry"
    and "getitem_str s3_entry ''bucket'' = Inr bucket_entry"
    and "getitem_str bucket_entry ''name'' = Inr (JStr B)"
    and "getitem_str s3_entry ''object'' = Inr object_entry"
    and "getitem_str object_entry ''key'' = Inr (JStr K)"
  shows "\<exists>request.
           send_email_calls (snd (handler str_other boto3_client environ event)) = [request] \<and>
           Data (Html (Body (Message request))) =
             ''<html>\<newline>    <head></head>\<newline>    <body>\<newline>      <h1>A file was uploaded to Bucket: '' @ B @
             ''</h1>\<newline>      <p>File name '' @ K @
             ''<p>\<newline>      <p>This email was sent with\<newline>        <a href='https://aws.amazon.com/ses/'>Amazon SES</a> using the\<newline>        <a href='https://aws.amazon.com/sdk-for-python/'>\<newline>          AWS SDK for Python (Boto)</a>.</p>\<newline>    </body>\<newline>    </html>\<newline>                '' \<and>
           sublist B (Data (Html (Body (Message request)))) \<and>
           sublist K (Data (Html (Body (Message request))))"
proof -
  let ?h = "BODY_HTML str_other (JStr B) (JStr K)"
  note paths = structural_extraction [OF assms(4-9)]
  note calls = handler_calls [OF assms(1-3) paths, of str_other boto3_client]
  have B: "sublist B ?h"
    unfolding BODY_HTML_def format_value_def json.case by (rule sublist_middle)
  have K: "sublist K ?h"
    unfolding BODY_HTML_def format_value_def json.case by (rule sublist_inner)
  have eq: "?h = ''<html>\<newline>    <head></head>\<newline>    <body>\<newline>      <h1>A file was uploaded to Bucket: '' @ B @
             ''</h1>\<newline>      <p>File name '' @ K @
             ''<p>\<newline>      <p>This email was sent with\<newline>        <a href='https://aws.amazon.com/ses/'>Amazon SES</a> using the\<newline>        <a href='https://aws.amazon.com/sdk-for-python/'>\<newline>          AWS SDK for Python (Boto)</a>.</p>\<newline>    </body>\<newline>    </html>\<newline>                ''"
    unfolding BODY_HTML_def format_value_def json.case by (rule refl)
  from B K eq show ?thesis unfolding calls by simp
qed

theorem html_body_embeds_bucket_and_key_witness:
  "example_environ ''sender'' = Some ''from@example.com'' \<and>
   example_environ ''recipient'' = Some ''to@example.com'' \<and>
   example_environ ''awsregion'' = Some ''eu-west-1'' \<and>
   getitem_str example_event_two_records ''Records'' =
     Inr (JList (example_first_record # [example_second_record])) \<and>
   getitem_str example_first_record ''s3'' = Inr example_s3_entry \<and>
   getitem_str example_s3_entry ''bucket'' = Inr example_bucket_entry \<and>
   getitem_str example_bucket_entry ''name'' = Inr (JStr ''photos'') \<and>
   getitem_str example_s3_entry ''object'' = Inr example_object_entry \<and>
   getitem_str example_object_entry ''key'' = Inr (JStr ''cat.png'') \<and>
   (\<exists>request.
      send_email_calls
        (snd (handler str_of_none accepting_client example_environ example_event_two_records))
        = [request] \<and>
      Data (Html (Body (Message request))) =
        ''<html>\<newline>    <head></head>\<newline>    <body>\<newline>      <h1>A file was uploaded to Bucket: photos</h1>\<newline>      <p>File name cat.png<p>\<newline>      <p>This email was sent with\<newline>        <a href='https://aws.amazon.com/ses/'>Amazon SES</a> using the\<newline>        <a href='https://aws.amazon.com/sdk-for-python/'>\<newline>          AWS SDK for Python (Boto)</a>.</p>\<newline>    </body>\<newline>    </html>\<newline>                '' \<and>
      sublist ''photos'' (Data (Html (Body (Message request)))) \<and>
      sublist ''cat.png'' (Data (Html (Body (Message request)))))"
  using html_body_embeds_bucket_and_key [OF example_environ_values example_structure,
      of str_of_none accepting_client]
  by (simp add: example_environ_values example_structure)

text \<open>
  C4, as stated, fails for the plain-text body: for the event \<open>example_event\<close>, with
  bucket \<open>photos\<close> and key \<open>cat.png\<close>, the text body of the one request sent contains
  neither value.
\<close>

theorem text_body_embeds_values_counterexample:
  "event_bucket_name example_event = Inr (JStr ''photos'') \<and>
   event_object_key example_event = Inr (JStr ''cat.png'') \<and>
   length (send_email_calls
             (snd (handler str_of_none accepting_client example_environ example_event))) = 1 \<and>
   \<not> sublist ''photos''
        (Data (Text (Body (Message (hd (send_email_calls
           (snd (handler str_of_none accepting_client example_environ example_event)))))))) \<and>
   \<not> sublist ''cat.png''
        (Data (Text (Body (Message (hd (send_email_calls
           (snd (handler str_of_none accepting_client example_environ example_event))))))))"
proof -
  have "\<not> sublist ''photos'' BODY_TEXT" unfolding BODY_TEXT_def by code_simp
  moreover have "\<not> sublist ''cat.png'' BODY_TEXT" unfolding BODY_TEXT_def by code_simp
  ultimately show ?thesis
    by (simp add: handler_calls [OF example_environ_values example_paths] example_paths)
qed

text \<open>
  C4, amended. For every event whose record list starts with a record that holds, under
  \<open>s3\<close>, a bucket entry of name \<open>B\<close> and an object entry of key \<open>K\<close>, both strings,
  the HTML body of the request sent contains \<open>B\<close> and \<open>K\<close>, and the plain-text body
  is the fixed literal \<open>BODY_TEXT\<close>, the same for every event.
\<close>

theorem html_embeds_values_text_is_fixed:
  assumes "environ ''sender'' = Some sender"
    and "environ ''recipient'' = Some recipient"
    and "environ ''awsregion'' = Some region"
    and "getitem_str event ''Records'' = Inr (JList (first_record # more_records))"
    and "getitem_str first_record ''s3'' = Inr s3_entry"
    and "getitem_str s3_entry ''bucket'' = Inr bucket_entry"
    and "getitem_str bucket_entry ''name'' = Inr (JStr B)"
    and "getitem_str s3_entry ''object'' = Inr object_entry"
    and "getitem_str object_entry ''key'' = Inr (JStr K)"
  shows "\<exists>request.
           send_email_calls (snd (handler str_other boto3_client environ event)) = [request] \<and>
           sublist B (Data (Html (Body (Message request)))) \<and>
           sublist K (Data (Html (Body (Message request)))) \<and>
           Data (Text (Body (Message request))) = BODY_TEXT"
proof -
  note paths = structural_extraction [OF assms(4-9)]
  have "sublist B (BODY_HTML str_other (JStr B) (JStr K))"
    unfolding BODY_HTML_def format_value_def json.case by (rule sublist_middle)
  moreover have "sublist K (BODY_HTML str_other (JStr B) (JStr K))"
    unfolding BODY_HTML_def format_value_def json.case by (rule sublist_inner)
  ultimately show ?thesis
    unfolding handler_calls [OF assms(1-3) paths, of str_other boto3_client] by simp
qed

theorem html_embeds_values_text_is_fixed_witness:
  "example_environ ''sender'' = Some ''from@example.com'' \<and>
   example_environ ''recipient'' = Some ''to@example.com'' \<and>
   example_environ ''awsregion'' = Some ''eu-west-1'' \<and>
   getitem_str example_event_two_records ''Records'' =
     Inr (JList (example_first_record # [example_second_record])) \<and>
   getitem_str example_first_record ''s3'' = Inr example_s3_entry \<and>
   getitem_str example_s3_entry ''bucket'' = Inr example_bucket_entry \<and>
   getitem_str example_bucket_entry ''name'' = Inr (JStr ''photos'') \<and>
   getitem_str example_s3_entry ''object'' = Inr example_object_entry \<and>
   getitem_str example_object_entry ''key'' = Inr (JStr ''cat.png'') \<and>
   (\<exists>request.
      send_email_calls
        (snd (handler str_of_none accepting_client example_environ example_event_two_records))
        = [request] \<and>
      sublist ''photos'' (Data (Html (Body (Message request)))) \<and>
      sublist ''cat.png'' (Data (Html (Body (Message request)))) \<and>
      Data (Text (Body (Message request))) = BODY_TEXT)"
  using html_embeds_values_text_is_fixed [OF example_environ_values example_structure,
      of str_of_none accepting_client]
  by (simp add: example_environ_values example_structure)

text \<open>
  C5. When the request the handler sends is answered by a \<open>ClientError\<close> whose response
  holds a message under \<open>Error\<close>, \<open>Message\<close>, the handler returns normally, the request
  is the only one sent, and exactly one line is printed: that message. The success line
  is not printed.
\<close>

theorem client_rejection_is_logged_not_raised:
  assumes "environ ''sender'' = Some sender"
    and "environ ''recipient'' = Some recipient"
    and "environ ''awsregion'' = Some region"
    and "event_object_key event = Inr K"
    and "event_bucket_name event = Inr B"
    and "send_email_calls (snd (handler str_other boto3_client environ event)) = [request]"
    and "boto3_client region request = Inl (ClientError response)"
    and "thenE (getitem_str response ''Error'') (\<lambda>err. getitem_str err ''Message'') = Inr msg"
  shows "handler str_other boto3_client environ event =
           (Inr (), \<lparr>send_email_calls = [request], printed = [format_value str_other msg]\<rparr>)"
proof -
  have req: "request =
           \<lparr>Destination = \<lparr>ToAddresses = [recipient]\<rparr>,
             Message =
               \<lparr>Body =
                  \<lparr>Html = \<lparr>Charset = CHARSET, Data = BODY_HTML str_other B K\<rparr>,
                   Text = \<lparr>Charset = CHARSET, Data = BODY_TEXT\<rparr>\<rparr>,
                Subject = \<lparr>Charset = CHARSET, Data = SUBJECT\<rparr>\<rparr>,
             Source = sender\<rparr>"
    using handler_calls [OF assms(1-5), of str_other boto3_client] assms(6) by simp
  show ?thesis
    using assms(1-5,7,8) unfolding req
    by (simp add: handler_def environ_getitem_def Let_def)
qed

theorem client_rejection_is_logged_not_raised_witness:
  "example_environ ''awsregion'' = Some ''eu-west-1'' \<and>
   send_email_calls (snd (handler str_of_none rejecting_client example_environ example_event))
     = [example_request] \<and>
   rejecting_client ''eu-west-1'' example_request = Inl (ClientError example_rejection) \<and>
   handler str_of_none rejecting_client example_environ example_event =
     (Inr (), \<lparr>send_email_calls = [example_request],
               printed = [''Email address is not verified.'']\<rparr>)"
proof -
  have rejected:
    "rejecting_client ''eu-west-1'' example_request = Inl (ClientError example_rejection)"
    by (simp add: rejecting_client_def)
  from client_rejection_is_logged_not_raised
         [where boto3_client = rejecting_client and str_other = str_of_none,
          OF example_environ_values example_paths example_calls rejected
             example_rejection_message]
  show ?thesis
    using rejected by (simp add: example_environ_values format_value_def)
qed

text \<open>
  C6. When \<open>sender\<close>, \<open>recipient\<close> or \<open>awsregion\<close> is not set, the invocation fails with
  the \<open>KeyError\<close> of one of these names; no request is sent and nothing is printed.
\<close>

theorem missing_environment_fails_before_send:
  assumes "environ ''sender'' = None \<or> environ ''recipient'' = None \<or>
           environ ''awsregion'' = None"
  shows "\<exists>k. (k = ''sender'' \<or> k = ''recipient'' \<or> k = ''awsregion'') \<and>
             handler str_other boto3_client environ event =
               (Inl (KeyError (JStr k)), \<lparr>send_email_calls = [], printed = []\<rparr>)"
proof (cases "environ ''sender''")
  case None
  then show ?thesis
    by (simp add: handler_def environ_getitem_def no_effects_def)
next
  case sender: (Some s)
  show ?thesis
  proof (cases "environ ''recipient''")
    case None
    with sender show ?thesis
      by (simp add: handler_def environ_getitem_def no_effects_def)
  next
    case (Some r)
    with sender assms have "environ ''awsregion'' = None" by simp
    with sender Some show ?thesis
      by (simp add: handler_def environ_getitem_def no_effects_def)
  qed
qed

theorem missing_environment_fails_before_send_witness:
  "example_environ_incomplete ''recipient'' = None \<and>
   handler str_of_none accepting_client example_environ_incomplete example_event =
     (Inl (KeyError (JStr ''recipient'')), \<lparr>send_email_calls = [], printed = []\<rparr>)"
proof -
  have none: "example_environ_incomplete ''recipient'' = None"
    by (simp add: example_environ_incomplete_def)
  have sender: "example_environ_incomplete ''sender'' = Some ''from@example.com''"
    by (simp add: example_environ_incomplete_def)
  from none have
    "example_environ_incomplete ''sender'' = None \<or>
     example_environ_incomplete ''recipient'' = None \<or>
     example_environ_incomplete ''awsregion'' = None" by simp
  from missing_environment_fails_before_send
         [OF this, of str_of_none accepting_client example_event]
  obtain k where k: "handler str_of_none accepting_client example_environ_incomplete example_event =
               (Inl (KeyError (JStr k)), \<lparr>send_email_calls = [], printed = []\<rparr>)"
    by blast
  have "fst (handler str_of_none accepting_client example_environ_incomplete example_event)
          = Inl (KeyError (JStr ''recipient''))"
    by (simp add: handler_def environ_getitem_def none sender)
  with k have "k = ''recipient''" by simp
  with k none show ?thesis by simp
qed

text \<open>
  C7. When reading the object key or the bucket name from the event raises, the invocation
  fails and no request is sent, whatever the environment; with the three environment
  values set, the exception that reaches the caller is the one raised by the first
  failing read of the event.
\<close>

theorem malformed_event_propagates:
  assumes "event_object_key event = Inl e1 \<or> event_bucket_name event = Inl e2"
  shows "(\<exists>e. fst (handler str_other boto3_client environ event) = Inl e) \<and>
         snd (handler str_other boto3_client environ event) =
           \<lparr>send_email_calls = [], printed = []\<rparr> \<and>
         (environ ''sender'' \<noteq> None \<and> environ ''recipient'' \<noteq> None \<and>
          environ ''awsregion'' \<noteq> None \<longrightarrow>
            fst (handler str_other boto3_client environ event) =
              (case event_object_key event of
                 Inl e \<Rightarrow> Inl e
               | Inr OBJECT \<Rightarrow>
                   (case event_bucket_name event of Inl e \<Rightarrow> Inl e | Inr BUCKET \<Rightarrow> Inr ())))"
  using assms
  by (auto simp add: handler_def environ_getitem_def no_effects_def
      split: option.splits sum.splits)

theorem malformed_event_propagates_witness:
  "event_object_key example_malformed_event = Inl (KeyError (JStr ''s3'')) \<and>
   example_environ ''sender'' \<noteq> None \<and> example_environ ''recipient'' \<noteq> None \<and>
   example_environ ''awsregion'' \<noteq> None \<and>
   fst (handler str_of_none accepting_client example_environ example_malformed_event) =
     Inl (KeyError (JStr ''s3'')) \<and>
   snd (handler str_of_none accepting_client example_environ example_malformed_event) =
     \<lparr>send_email_calls = [], printed = []\<rparr>"
  using malformed_event_propagates
          [of example_malformed_event "KeyError (JStr ''s3'')" TypeError
              str_of_none accepting_client example_environ]
  by (simp add: example_malformed_paths example_environ_values)

section \<open>Notification Registrar: properties\<close>

text \<open>
  C2. For every event whose resource properties hold the bucket name \<open>B2\<close> and the
  function identifier \<open>F2\<close>, the create/update function sends exactly one request,
  whatever the storage service answers and whatever it held before: a \<open>put\<close> for \<open>B2\<close>
  whose configuration has the single entry \<open>LambdaFunctionConfigurations\<close> with one rule,
  of id \<open>object-create-permission\<close>, function \<open>F2\<close> and events
  \<open>['s3:ObjectCreated:*']\<close>. When the service accepts the request, the configuration it
  holds for \<open>B2\<close> is that one, in place of any earlier one, and no other bucket changes;
  when it rejects the request, nothing changes.
\<close>

theorem create_update_overwrites_configuration:
  assumes "getitem_str event ''ResourceProperties'' = Inr props"
    and "getitem_str props ''S3BucketName'' = Inr B2"
    and "getitem_str props ''FunctionARN'' = Inr F2"
  shows "s3_calls (snd (lambda_fn_handler json_dumps service event c)) =
           s3_calls c @
           [BucketNotification_put B2
              (JObj [(''LambdaFunctionConfigurations'',
                      JList [JObj [(''Id'', JStr ''object-create-permission''),
                                   (''LambdaFunctionArn'', F2),
                                   (''Events'', JList [JStr ''s3:ObjectCreated:*''])]])])] \<and>
         notification_store (snd (lambda_fn_handler json_dumps service event c)) =
           (case fst (lambda_fn_handler json_dumps service event c) of
              Inl e \<Rightarrow> notification_store c
            | Inr response \<Rightarrow>
                (notification_store c)
                  (B2 \<mapsto>
                   JObj [(''LambdaFunctionConfigurations'',
                          JList [JObj [(''Id'', JStr ''object-create-permission''),
                                       (''LambdaFunctionArn'', F2),
                                       (''Events'', JList [JStr ''s3:ObjectCreated:*''])]])]))"
  using assms
  by (simp add: lambda_fn_handler_def thenE_def bucket_notification_put_def
      logger_info_def Let_def split: sum.splits)

theorem create_update_overwrites_configuration_witness:
  "getitem_str example_create_event ''ResourceProperties'' = Inr example_properties \<and>
   getitem_str example_properties ''S3BucketName'' = Inr (JStr ''photos'') \<and>
   getitem_str example_properties ''FunctionARN'' =
     Inr (JStr ''arn:aws:lambda:eu-west-1:123456789012:function:notify'') \<and>
   notification_store example_cloud (JStr ''photos'') \<noteq> None \<and>
   notification_store example_cloud (JStr ''photos'') \<noteq> Some example_configuration \<and>
   s3_calls (snd (lambda_fn_handler example_json_dumps s3_returning_metadata
                    example_create_event example_cloud)) =
     [BucketNotification_put (JStr ''photos'') example_configuration] \<and>
   notification_store (snd (lambda_fn_handler example_json_dumps s3_returning_metadata
                              example_create_event example_cloud)) (JStr ''photos'') =
     Some example_configuration"
proof -
  have ok: "fst (lambda_fn_handler example_json_dumps s3_returning_metadata
                   example_create_event example_cloud) = Inr example_response"
    by (simp add: lambda_fn_handler_def thenE_def
        example_create_properties bucket_notification_put_def s3_returning_metadata_def Let_def)
  note main = create_update_overwrites_configuration
         [OF example_create_properties,
          of example_json_dumps s3_returning_metadata example_cloud]
  have before:
    "notification_store example_cloud (JStr ''photos'') \<noteq> None \<and>
     notification_store example_cloud (JStr ''photos'') \<noteq> Some example_configuration \<and>
     s3_calls example_cloud = []"
    by (simp add: example_cloud_def example_configuration_def)
  from main have calls:
    "s3_calls (snd (lambda_fn_handler example_json_dumps s3_returning_metadata
                      example_create_event example_cloud)) =
       [BucketNotification_put (JStr ''photos'') example_configuration]"
    by (simp add: before example_configuration_def)
  from main have after:
    "notification_store (snd (lambda_fn_handler example_json_dumps s3_returning_metadata
                                example_create_event example_cloud)) (JStr ''photos'') =
       Some example_configuration"
    by (simp add: ok example_configuration_def)
  from before calls after show ?thesis
    by (simp add: example_create_properties)
qed

text \<open>
  C8. For every event, the delete function sends no request to the storage service and
  leaves the notification configurations as they were; it hands one record, \<open>Deleted\<close>,
  to the logger and returns \<open>None\<close>.
\<close>

theorem delete_leaves_storage_untouched:
  "fst (lambda_fn_delete event c) = Inr JNull \<and>
   s3_calls (snd (lambda_fn_delete event c)) = s3_calls c \<and>
   notification_store (snd (lambda_fn_delete event c)) = notification_store c \<and>
   cfn_signals (snd (lambda_fn_delete event c)) = cfn_signals c \<and>
   log_records (snd (lambda_fn_delete event c)) = log_records c @ [''Deleted'']"
  by (simp add: lambda_fn_delete_def logger_info_def)

text \<open>
  C9, as stated, fails for a response that Python counts as false: when \<open>put\<close> answers
  \<open>None\<close>, the invocation succeeds and returns \<open>None\<close>, and the only record logged is
  \<open>Creating or Updating\<close>; the response is not logged.
\<close>

theorem response_logged_counterexample:
  "s3_returning_none (BucketNotification_put (JStr ''photos'') example_configuration) = Inr JNull \<and>
   fst (lambda_fn_handler example_json_dumps s3_returning_none example_create_event example_cloud)
     = Inr JNull \<and>
   log_records (snd (lambda_fn_handler example_json_dumps s3_returning_none
                       example_create_event example_cloud)) = [''Creating or Updating''] \<and>
   ''Created or Updated, '' @ example_json_dumps JNull \<notin>
     set (log_records (snd (lambda_fn_handler example_json_dumps s3_returning_none
                              example_create_event example_cloud)))"
  by (simp add: lambda_fn_handler_def thenE_def
      example_create_properties bucket_notification_put_def s3_returning_none_def Let_def
      logger_info_def example_cloud_def)

text \<open>
  C9, amended. For every create/update invocation in which \<open>put\<close> returns a response,
  the function returns that response unchanged, and logs it, as
  \<open>Created or Updated, \<close> followed by its JSON text, exactly when the response is one
  Python counts as true (\<open>if response:\<close>).
\<close>

theorem create_update_returns_response:
  assumes "getitem_str event ''ResourceProperties'' = Inr props"
    and "getitem_str props ''S3BucketName'' = Inr B2"
    and "getitem_str props ''FunctionARN'' = Inr F2"
    and "service (BucketNotification_put B2
               (JObj [(''LambdaFunctionConfigurations'',
                       JList [JObj [(''Id'', JStr ''object-create-permission''),
                                    (''LambdaFunctionArn'', F2),
                                    (''Events'', JList [JStr ''s3:ObjectCreated:*''])]])]))
         = Inr response"
  shows "fst (lambda_fn_handler json_dumps service event c) = Inr response \<and>
         log_records (snd (lambda_fn_handler json_dumps service event c)) =
           log_records c @ [''Creating or Updating''] @
           (if truthy response then [''Created or Updated, '' @ json_dumps response] else [])"
  using assms
  by (simp add: lambda_fn_handler_def thenE_def bucket_notification_put_def
      logger_info_def Let_def)

theorem create_update_returns_response_witness:
  "s3_returning_metadata (BucketNotification_put (JStr ''photos'') example_configuration)
     = Inr example_response \<and>
   truthy example_response \<and>
   fst (lambda_fn_handler example_json_dumps s3_returning_metadata
          example_create_event example_cloud) = Inr example_response \<and>
   log_records (snd (lambda_fn_handler example_json_dumps s3_returning_metadata
                       example_create_event example_cloud)) =
     [''Creating or Updating'', ''Created or Updated, {\"ResponseMetadata\": {}}'']"
proof -
  have answer:
    "s3_returning_metadata
       (BucketNotification_put (JStr ''photos'')
          (JObj [(''LambdaFunctionConfigurations'',
                  JList [JObj [(''Id'', JStr ''object-create-permission''),
                               (''LambdaFunctionArn'',
                                JStr ''arn:aws:lambda:eu-west-1:123456789012:function:notify''),
                               (''Events'', JList [JStr ''s3:ObjectCreated:*''])]])]))
     = Inr example_response"
    by (simp add: s3_returning_metadata_def)
  note main = create_update_returns_response
         [where service = s3_returning_metadata and json_dumps = example_json_dumps
            and c = example_cloud,
          OF example_create_properties answer]
  have "log_records example_cloud = []" by (simp add: example_cloud_def)
  moreover have "truthy example_response" by (simp add: example_response_def)
  moreover have "example_json_dumps example_response = ''{\"ResponseMetadata\": {}}''"
    by (simp add: example_response_def example_json_dumps_def)
  moreover have
    "s3_returning_metadata (BucketNotification_put (JStr ''photos'') example_configuration)
       = Inr example_response"
    by (simp add: s3_returning_metadata_def)
  ultimately show ?thesis using main by simp
qed

subsection \<open>The entry point\<close>

lemma lambda_fn_module_names:
  "globals lambda_fn_module ''handler'' = Some handler_line_37"
  "globals lambda_fn_module ''delete'' = Some delete_line_34"
  by (simp_all add: lambda_fn_module_def def_handler_line_37_def def_delete_line_34_def
      def_handler_line_11_def module_start_def CfnResource_create_def CfnResource_update_def
      CfnResource_delete_def)

lemma lambda_fn_module_helper:
  "helper lambda_fn_module =
     \<lparr>create_func = Some handler_line_11, update_func = Some handler_line_11,
      delete_func = Some delete_line_34\<rparr>"
  by (simp add: lambda_fn_module_def def_handler_line_37_def def_delete_line_34_def
      def_handler_line_11_def module_start_def CfnResource_create_def CfnResource_update_def
      CfnResource_delete_def)

text \<open>
  C10. After the module has been executed, the name \<open>handler\<close> is bound to the function
  of line 37, while the helper still holds the function of line 11 for both create and
  update, since each decorator stored the function object before the name was bound
  again. For every create or update event, and with any fuel of at least two calls, the
  entry point returns \<open>None\<close> after the helper has run the create/update function on the
  event and has signalled its outcome: the effects are those of that function followed by
  one signal of the helper.
\<close>

theorem entry_point_dispatches_through_helper:
  assumes "request_phase event = Some Create \<or> request_phase event = Some Update"
  shows "globals lambda_fn_module ''handler'' = Some handler_line_37 \<and>
         create_func (helper lambda_fn_module) = Some handler_line_11 \<and>
         update_func (helper lambda_fn_module) = Some handler_line_11 \<and>
         lambda_entry json_dumps service (Suc (Suc n)) event c =
           Some (Inr JNull,
                 signal (case fst (lambda_fn_handler json_dumps service event c) of
                           Inl e \<Rightarrow> FAILED
                         | Inr v \<Rightarrow> SUCCESS)
                   (snd (lambda_fn_handler json_dumps service event c)))"
proof -
  obtain r c' where run: "lambda_fn_handler json_dumps service event c = (r, c')"
    by (cases "lambda_fn_handler json_dumps service event c")
  from assms have slot:
    "\<exists>ph. request_phase event = Some ph \<and>
          registered (helper lambda_fn_module) ph = Some handler_line_11"
    by (auto simp add: registered_def lambda_fn_module_helper)
  then obtain ph where ph: "request_phase event = Some ph"
    and reg: "registered (helper lambda_fn_module) ph = Some handler_line_11"
    by blast
  have "lambda_entry json_dumps service (Suc (Suc n)) event c =
          Some (Inr JNull, signal (case r of Inl e \<Rightarrow> FAILED | Inr v \<Rightarrow> SUCCESS) c')"
    by (cases r) (simp_all add: lambda_entry_def lambda_fn_module_names CfnResource_call_def
        ph reg run)
  then show ?thesis
    by (simp add: run lambda_fn_module_names lambda_fn_module_helper)
qed

theorem entry_point_dispatches_through_helper_witness:
  "request_phase example_create_event = Some Create \<and>
   fst (lambda_fn_handler example_json_dumps s3_returning_metadata
          example_create_event example_cloud) = Inr example_response \<and>
   lambda_entry example_json_dumps s3_returning_metadata (Suc (Suc 0))
       example_create_event example_cloud =
     Some (Inr JNull,
           signal SUCCESS
             (snd (lambda_fn_handler example_json_dumps s3_returning_metadata
                     example_create_event example_cloud)))"
proof -
  have ok: "fst (lambda_fn_handler example_json_dumps s3_returning_metadata
                   example_create_event example_cloud) = Inr example_response"
    by (simp add: lambda_fn_handler_def thenE_def
        example_create_properties bucket_notification_put_def s3_returning_metadata_def Let_def)
  from example_create_phase have
    "request_phase example_create_event = Some Create \<or>
     request_phase example_create_event = Some Update" by simp
  from entry_point_dispatches_through_helper
         [OF this, of example_json_dumps s3_returning_metadata 0 example_cloud]
  show ?thesis
    by (simp add: ok example_create_phase)
qed

end
